theory Spec2Isabelle
  imports Main
begin

section \<open>Python values\<close>

text \<open>
  A Python \<open>str\<close> is a \<open>string\<close>: a list of characters, each a code point below 256
  (Latin-1). Code points above 255 are outside this model.

  \<open>pyval\<close> holds the values a decoded JSON body is made of, which are also the values a
  request body is built from. A \<open>dict\<close> is the list of its items in insertion order. A
  \<open>float\<close> is kept as the text Python prints for it (\<open>1.5\<close>, \<open>1e+16\<close>, \<open>nan\<close>): the
  program only tests floats for truth and prints them.
\<close>

datatype pyval =
    PNone
  | PBool bool
  | PInt int
  | PFloat string
  | PStr string
  | PList "pyval list"
  | PDict "(string \<times> pyval) list"

text \<open>
  Exceptions, as values. \<open>ValueError\<close> and \<open>RuntimeError\<close> carry the message the program
  gives them. \<open>TypeError\<close>, \<open>AttributeError\<close>, \<open>KeyError\<close> and \<open>IndexError\<close> are raised by
  the interpreter on an operation a value does not support. \<open>RequestException\<close>,
  \<open>HTTPError\<close> (with the status) and \<open>JSONDecodeError\<close> come from the \<open>requests\<close> library.
\<close>

datatype py_error =
    ValueError string
  | RuntimeError string
  | TypeError
  | AttributeError
  | KeyError
  | IndexError
  | RequestException
  | HTTPError nat
  | JSONDecodeError

text \<open>Truth value testing: \<open>bool(v)\<close>.\<close>

fun truthy :: "pyval \<Rightarrow> bool" where
  "truthy PNone = False"
| "truthy (PBool b) = b"
| "truthy (PInt i) = (i \<noteq> 0)"
| "truthy (PFloat f) = (f \<noteq> ''0.0'' \<and> f \<noteq> ''-0.0'')"
| "truthy (PStr s) = (s \<noteq> [])"
| "truthy (PList xs) = (xs \<noteq> [])"
| "truthy (PDict kvs) = (kvs \<noteq> [])"

text \<open>\<open>a or b\<close>: \<open>a\<close> when it is true, else \<open>b\<close>.\<close>

definition py_or :: "pyval \<Rightarrow> pyval \<Rightarrow> pyval" where
  "py_or a b = (if truthy a then a else b)"

subsection \<open>String methods\<close>

text \<open>
  \<open>str.lower\<close> on one character: the ASCII capitals \<open>A\<close>..\<open>Z\<close> (65..90) and the Latin-1
  capitals (192..222, without the multiplication sign 215) move up by 32.
\<close>

definition lower_char :: "char \<Rightarrow> char" where
  "lower_char c =
     (let n = (of_char c :: nat)
      in if (65 \<le> n \<and> n \<le> 90) \<or> (192 \<le> n \<and> n \<le> 222 \<and> n \<noteq> 215)
         then char_of (n + 32) else c)"

definition lower :: "string \<Rightarrow> string" where
  "lower s = map lower_char s"

definition startswith :: "string \<Rightarrow> string \<Rightarrow> bool" where
  "startswith s p = (take (length p) s = p)"

text \<open>\<open>s.rstrip(chars)\<close> and \<open>s.lstrip(chars)\<close>.\<close>

definition lstrip :: "string \<Rightarrow> string \<Rightarrow> string" where
  "lstrip chars s = dropWhile (\<lambda>c. c \<in> set chars) s"

definition rstrip :: "string \<Rightarrow> string \<Rightarrow> string" where
  "rstrip chars s = rev (dropWhile (\<lambda>c. c \<in> set chars) (rev s))"

subsection \<open>Printing: \<open>repr\<close> and \<open>str\<close>\<close>

text \<open>
  \<open>repr\<close> of an \<open>int\<close>: its decimal digits, after a minus sign when it is negative.
  \<open>digit\<close> also gives the hexadecimal digits of an escape.
\<close>

definition digit :: "nat \<Rightarrow> char" where
  "digit d = ''0123456789abcdef'' ! d"

fun digits :: "nat \<Rightarrow> string" where
  "digits n = (if n < 10 then [digit n] else digits (n div 10) @ [digit (n mod 10)])"

declare digits.simps [simp del]

definition repr_int :: "int \<Rightarrow> string" where
  "repr_int i = (if i < 0 then ''-'' @ digits (nat (- i)) else digits (nat i))"

text \<open>
  \<open>repr\<close> of a \<open>str\<close>. The quote is \<open>'\<close> (39) unless the text holds a \<open>'\<close> and no \<open>"\<close>
  (34). The quote and the backslash (92) are escaped with a backslash; tab (9), newline
  (10) and carriage return (13) print as \<open>\t\<close>, \<open>\n\<close>, \<open>\r\<close>; every other character
  that is not printable (below 32, 127 to 160, and 173) prints as \<open>\xNN\<close>.
\<close>

definition repr_char :: "char \<Rightarrow> char \<Rightarrow> string" where
  "repr_char quote c =
     (let n = (of_char c :: nat)
      in if c = quote \<or> n = 92 then [CHR 0x5C, c]
         else if n = 9 then [CHR 0x5C, CHR ''t'']
         else if n = 10 then [CHR 0x5C, CHR ''n'']
         else if n = 13 then [CHR 0x5C, CHR ''r'']
         else if n < 32 \<or> (127 \<le> n \<and> n \<le> 160) \<or> n = 173
           then [CHR 0x5C, CHR ''x'', digit (n div 16), digit (n mod 16)]
         else [c])"

definition repr_str :: "string \<Rightarrow> string" where
  "repr_str s =
     (let quote = (if CHR 0x27 \<in> set s \<and> CHR 0x22 \<notin> set s then CHR 0x22 else CHR 0x27)
      in [quote] @ concat (map (repr_char quote) s) @ [quote])"

text \<open>\<open>sep.join(xs)\<close>, and \<open>repr\<close> of a value; \<open>str\<close> differs from it on a \<open>str\<close> only.\<close>

fun join :: "string \<Rightarrow> string list \<Rightarrow> string" where
  "join sep [] = []"
| "join sep [x] = x"
| "join sep (x # y # ys) = x @ sep @ join sep (y # ys)"

fun py_repr :: "pyval \<Rightarrow> string"
  and repr_elems :: "pyval list \<Rightarrow> string list"
  and repr_items :: "(string \<times> pyval) list \<Rightarrow> string list" where
  "py_repr PNone = ''None''"
| "py_repr (PBool b) = (if b then ''True'' else ''False'')"
| "py_repr (PInt i) = repr_int i"
| "py_repr (PFloat f) = f"
| "py_repr (PStr s) = repr_str s"
| "py_repr (PList xs) = ''['' @ join '', '' (repr_elems xs) @ '']''"
| "py_repr (PDict kvs) = ''{'' @ join '', '' (repr_items kvs) @ ''}''"
| "repr_elems [] = []"
| "repr_elems (x # xs) = py_repr x # repr_elems xs"
| "repr_items [] = []"
| "repr_items ((k, v) # kvs) = (repr_str k @ '': '' @ py_repr v) # repr_items kvs"

definition py_str :: "pyval \<Rightarrow> string" where
  "py_str v = (case v of PStr s \<Rightarrow> s | _ \<Rightarrow> py_repr v)"

subsection \<open>Dictionaries\<close>

text \<open>
  \<open>d.get(key, default)\<close>, \<open>d[key] = v\<close> (an existing key keeps its place, a new one
  goes last), \<open>d.update(other)\<close> and \<open>d.pop(key, default)\<close> (the value and what is left).
\<close>

definition dict_get :: "(string \<times> pyval) list \<Rightarrow> string \<Rightarrow> pyval \<Rightarrow> pyval" where
  "dict_get d key dflt = (case map_of d key of None \<Rightarrow> dflt | Some v \<Rightarrow> v)"

fun dict_setitem :: "string \<Rightarrow> pyval \<Rightarrow> (string \<times> pyval) list \<Rightarrow> (string \<times> pyval) list" where
  "dict_setitem key v [] = [(key, v)]"
| "dict_setitem key v ((k, x) # d) =
     (if k = key then (k, v) # d else (k, x) # dict_setitem key v d)"

fun dict_update :: "(string \<times> pyval) list \<Rightarrow> (string \<times> pyval) list \<Rightarrow> (string \<times> pyval) list" where
  "dict_update d [] = d"
| "dict_update d ((k, v) # other) = dict_update (dict_setitem k v d) other"

definition dict_pop ::
  "(string \<times> pyval) list \<Rightarrow> string \<Rightarrow> pyval \<Rightarrow> pyval \<times> (string \<times> pyval) list" where
  "dict_pop d key dflt = (dict_get d key dflt, filter (\<lambda>(k, v). k \<noteq> key) d)"

subsection \<open>Exceptions\<close>

text \<open>One statement after another: an exception in the first ends the run.\<close>

definition and_then :: "py_error + 'a \<Rightarrow> ('a \<Rightarrow> py_error + 'b) \<Rightarrow> py_error + 'b" where
  "and_then r f = (case r of Inl e \<Rightarrow> Inl e | Inr x \<Rightarrow> f x)"

subsection \<open>Operations on any value\<close>

text \<open>\<open>sub in s\<close> for two strings: \<open>sub\<close> occurs in \<open>s\<close>.\<close>

fun str_contains :: "string \<Rightarrow> string \<Rightarrow> bool" where
  "str_contains sub [] = (sub = [])"
| "str_contains sub (c # cs) = (startswith (c # cs) sub \<or> str_contains sub cs)"

text \<open>
  \<open>key in v\<close> for a string \<open>key\<close>: a key of a dict, an element of a list, a part of a
  string; \<open>TypeError\<close> on a value that is not a container.
\<close>

fun py_contains :: "string \<Rightarrow> pyval \<Rightarrow> py_error + bool" where
  "py_contains key (PDict d) = Inr (map_of d key \<noteq> None)"
| "py_contains key (PList xs) = Inr (PStr key \<in> set xs)"
| "py_contains key (PStr s) = Inr (str_contains key s)"
| "py_contains key v = Inl TypeError"

text \<open>\<open>v.get(key, default)\<close>: only a dict has the method.\<close>

fun py_get :: "pyval \<Rightarrow> string \<Rightarrow> pyval \<Rightarrow> py_error + pyval" where
  "py_get (PDict d) key dflt = Inr (dict_get d key dflt)"
| "py_get v key dflt = Inl AttributeError"

text \<open>\<open>v[key]\<close> for a string \<open>key\<close>.\<close>

fun py_getitem :: "pyval \<Rightarrow> string \<Rightarrow> py_error + pyval" where
  "py_getitem (PDict d) key = (case map_of d key of None \<Rightarrow> Inl KeyError | Some v \<Rightarrow> Inr v)"
| "py_getitem v key = Inl TypeError"

text \<open>
  \<open>v[0]\<close>: the first element of a list, the first character of a string; on a dict the
  lookup of the key \<open>0\<close>, which no decoded JSON object has.
\<close>

fun py_getitem0 :: "pyval \<Rightarrow> py_error + pyval" where
  "py_getitem0 (PList []) = Inl IndexError"
| "py_getitem0 (PList (x # xs)) = Inr x"
| "py_getitem0 (PStr []) = Inl IndexError"
| "py_getitem0 (PStr (c # cs)) = Inr (PStr [c])"
| "py_getitem0 (PDict d) = Inl KeyError"
| "py_getitem0 v = Inl TypeError"

section \<open>The client\<close>

text \<open>
  A record field whose name is a keyword of Isabelle or the name of a parameter carries a
  prime: \<open>text'\<close> and \<open>model'\<close> are the fields \<open>text\<close> and \<open>model\<close> of \<open>LLMResponse\<close>;
  \<open>api_key'\<close>, \<open>base_url'\<close> and \<open>timeout'\<close> are the attributes of the client.
  No field of \<open>LLMResponse\<close> is checked against its annotation, so each holds any value.
\<close>

definition DEFAULT_BASE :: string where
  "DEFAULT_BASE = ''https://factchat-cloud.mindlogic.ai/v1/api''"

record LLMResponse =
  text' :: pyval
  model' :: pyval
  usage :: pyval
  finish_reason :: pyval
  raw :: pyval

record FactChatClient =
  api_key' :: string
  base_url' :: string
  timeout' :: int

text \<open>
  The world outside: the process environment, and the HTTP library. \<open>post_request\<close> is
  one call of \<open>requests.post\<close> with its arguments; \<open>server\<close> is what that call does, an
  exception or a response with a status and a body (\<open>None\<close> when the body is not JSON);
  \<open>posts\<close> records every call made, in order.
\<close>

record post_request =
  post_url :: string
  post_headers :: "(string \<times> string) list"
  post_json :: "(string \<times> pyval) list"
  post_timeout :: int

record response =
  status_code :: nat
  json_body :: "pyval option"

record world =
  environ :: "string \<Rightarrow> string option"
  server :: "post_request \<Rightarrow> py_error + response"
  posts :: "post_request list"

text \<open>\<open>a or b\<close> on optional strings: \<open>None\<close> and the empty string are false.\<close>

definition opt_or :: "string option \<Rightarrow> string option \<Rightarrow> string option" where
  "opt_or a b = (case a of None \<Rightarrow> b | Some s \<Rightarrow> if s \<noteq> [] then Some s else b)"

text \<open>
  \<open>FactChatClient.__init__\<close>. \<open>FactChatClient()\<close> is \<open>init w None None 60\<close>.
\<close>

definition init ::
  "world \<Rightarrow> string option \<Rightarrow> string option \<Rightarrow> int \<Rightarrow> (py_error + FactChatClient) \<times> world" where
  "init w api_key base_url timeout =
     (case opt_or api_key (environ w ''FACTCHAT_API_KEY'') of
        None \<Rightarrow> (Inl (RuntimeError ''FACTCHAT_API_KEY missing''), w)
      | Some k \<Rightarrow>
          if k = [] then (Inl (RuntimeError ''FACTCHAT_API_KEY missing''), w)
          else
            (case opt_or (opt_or base_url (environ w ''FACTCHAT_BASE_URL'')) (Some DEFAULT_BASE) of
               None \<Rightarrow> (Inl AttributeError, w)
             | Some b \<Rightarrow>
                 (Inr \<lparr>api_key' = k, base_url' = rstrip ''/'' b, timeout' = timeout\<rparr>, w)))"

text \<open>\<open>FactChatClient._headers\<close>.\<close>

definition headers :: "FactChatClient \<Rightarrow> (string \<times> string) list" where
  "headers self =
     [(''Authorization'', ''Bearer '' @ api_key' self),
      (''Content-Type'', ''application/json'')]"

subsection \<open>The router\<close>

text \<open>
  \<open>FactChatClient.router\<close>: the endpoint path and the provider of a model name, or
  \<open>ValueError\<close> with the model name in its message.
\<close>

definition router :: "string \<Rightarrow> py_error + (string \<times> string)" where
  "router model =
     (let m = lower model
      in if startswith m ''claude-'' then Inr (''anthropic/messages'', ''anthropic'')
         else if startswith m ''gpt-'' then Inr (''openai/chat/completions'', ''openai'')
         else Inl (ValueError (''Unsupported model: '' @ model)))"

subsection \<open>The payload builder\<close>

text \<open>
  Keyword arguments. \<open>kwargs\<close> is the list of the extra keyword arguments of a call, in
  order. Python refuses a call (\<open>TypeError\<close>) that gives a keyword twice or gives as a
  keyword a parameter that already has its value: \<open>self\<close>, \<open>model\<close> and \<open>user_text\<close> here.
\<close>

definition kwargs_ok :: "(string \<times> pyval) list \<Rightarrow> bool" where
  "kwargs_ok kwargs \<longleftrightarrow>
     distinct (map fst kwargs)
     \<and> ''self'' \<notin> set (map fst kwargs)
     \<and> ''model'' \<notin> set (map fst kwargs)
     \<and> ''user_text'' \<notin> set (map fst kwargs)"

text \<open>\<open>FactChatClient.build_payload\<close>.\<close>

definition build_payload ::
  "string \<Rightarrow> string \<Rightarrow> (string \<times> pyval) list \<Rightarrow> py_error + (string \<times> pyval) list" where
  "build_payload model user_text kwargs =
     (if \<not> kwargs_ok kwargs then Inl TypeError
      else
        and_then (router model) (\<lambda>(path, provider).
             if provider = ''anthropic'' then
               (let (max_tokens, kwargs1) = dict_pop kwargs ''max_tokens'' (PInt 256);
                    payload =
                      [(''model'', PStr model),
                       (''max_tokens'', max_tokens),
                       (''messages'',
                          PList [PDict [(''role'', PStr ''user''), (''content'', PStr user_text)]])]
                in Inr (dict_update payload kwargs1))
             else if provider = ''openai'' then
               (let payload =
                      [(''model'', PStr model),
                       (''messages'',
                          PList [PDict [(''role'', PStr ''user''), (''content'', PStr user_text)]])]
                in Inr (dict_update payload kwargs))
             else Inl (ValueError (''Unsupported provider: '' @ provider))))"

subsection \<open>The response normalizer\<close>

text \<open>
  \<open>FactChatClient._parse_result\<close>. The test \<open>"choices" in data and data.get("choices")\<close>
  is \<open>has_choices\<close>; the two returns follow it.
\<close>

definition has_choices :: "pyval \<Rightarrow> py_error + bool" where
  "has_choices data =
     and_then (py_contains ''choices'' data) (\<lambda>found.
       if \<not> found then Inr False
       else and_then (py_get data ''choices'' PNone) (\<lambda>c. Inr (truthy c)))"

text \<open>\<open>data["choices"][0]\<close>.\<close>

definition first_choice :: "pyval \<Rightarrow> py_error + pyval" where
  "first_choice data = and_then (py_getitem data ''choices'') py_getitem0"

definition parse_result :: "string \<Rightarrow> pyval \<Rightarrow> py_error + LLMResponse" where
  "parse_result provider data =
     and_then (has_choices data) (\<lambda>primary.
       if primary then
         and_then (first_choice data) (\<lambda>choice.
         and_then (py_get choice ''message'' (PDict [])) (\<lambda>m.
         let msg = py_or m (PDict []) in
         and_then (py_get msg ''content'' (PStr [])) (\<lambda>c.
         let text = py_or c (PStr []) in
         and_then (first_choice data) (\<lambda>choice'.
         and_then (py_get choice' ''finish_reason'' PNone) (\<lambda>finish.
         and_then (py_get data ''usage'' (PDict [])) (\<lambda>u.
         and_then (py_get data ''model'' (PStr [])) (\<lambda>mo.
         Inr \<lparr>text' = text, model' = py_or mo (PStr []), usage = py_or u (PDict []),
              finish_reason = finish, raw = data\<rparr>)))))))
       else
         (let text = PStr (py_str data) in
          and_then (py_get data ''model'' (PStr [])) (\<lambda>mo.
          and_then (py_get data ''usage'' (PDict [])) (\<lambda>u.
          Inr \<lparr>text' = text, model' = mo, usage = py_or u (PDict []),
               finish_reason = PNone, raw = data\<rparr>))))"

subsection \<open>The call\<close>

text \<open>
  \<open>FactChatClient.call\<close>. \<open>target_url\<close> is the address it builds; a status from 400 to
  599 makes \<open>raise_for_status\<close> raise.
\<close>

definition target_url :: "FactChatClient \<Rightarrow> string \<Rightarrow> string" where
  "target_url self path = base_url' self @ ''/'' @ lstrip ''/'' path"

definition call ::
  "FactChatClient \<Rightarrow> world \<Rightarrow> string \<Rightarrow> string \<Rightarrow> (string \<times> pyval) list
     \<Rightarrow> (py_error + LLMResponse) \<times> world" where
  "call self w model user_text kwargs =
     (if \<not> kwargs_ok kwargs then (Inl TypeError, w)
      else
        (case router model of
           Inl e \<Rightarrow> (Inl e, w)
         | Inr (path, provider) \<Rightarrow>
             (let url = target_url self path in
              (case build_payload model user_text kwargs of
                 Inl e \<Rightarrow> (Inl e, w)
               | Inr payload \<Rightarrow>
                   (let request = \<lparr>post_url = url, post_headers = headers self,
                                    post_json = payload, post_timeout = timeout' self\<rparr>;
                        w' = w\<lparr>posts := posts w @ [request]\<rparr>
                    in (case server w request of
                          Inl e \<Rightarrow> (Inl e, w')
                        | Inr response \<Rightarrow>
                            if 400 \<le> status_code response \<and> status_code response < 600
                            then (Inl (HTTPError (status_code response)), w')
                            else (case json_body response of
                                    None \<Rightarrow> (Inl JSONDecodeError, w')
                                  | Some data \<Rightarrow> (parse_result provider data, w'))))))))"

subsection \<open>The script \<open>run_chat.py\<close>\<close>

text \<open>
  It makes a client from the environment, calls it once and prints the text of the
  answer: the result is the line printed, or the exception that ends the script.
\<close>

definition run_chat :: "world \<Rightarrow> (py_error + string) \<times> world" where
  "run_chat w =
     (case init w None None 60 of
        (Inl e, w1) \<Rightarrow> (Inl e, w1)
      | (Inr fc, w1) \<Rightarrow>
          (case call fc w1 ''gpt-5-mini'' ''ping'' [] of
             (Inl e, w2) \<Rightarrow> (Inl e, w2)
           | (Inr res, w2) \<Rightarrow> (Inr (py_str (text' res)), w2)))"

section \<open>The words of the specification\<close>

text \<open>
  \<open>begins_ci p s\<close>: the string \<open>s\<close> begins with the lower-case ASCII text \<open>p\<close>, each
  letter in either case.
\<close>

definition upper_ascii :: "char \<Rightarrow> char" where
  "upper_ascii p =
     (let n = (of_char p :: nat)
      in if 97 \<le> n \<and> n \<le> 122 then char_of (n - 32) else p)"

fun begins_ci :: "string \<Rightarrow> string \<Rightarrow> bool" where
  "begins_ci [] s = True"
| "begins_ci (p # ps) [] = False"
| "begins_ci (p # ps) (c # cs) = ((c = p \<or> c = upper_ascii p) \<and> begins_ci ps cs)"

text \<open>An ASCII character that is not a capital letter.\<close>

definition plain_ascii :: "char \<Rightarrow> bool" where
  "plain_ascii p \<longleftrightarrow> (of_char p :: nat) < 65 \<or> (90 < (of_char p :: nat) \<and> (of_char p :: nat) < 128)"

text \<open>
  \<open>body_ok data\<close>: the shapes of a body on which the normalizer returns. The body is an
  object; its \<open>choices\<close> is absent or false (\<open>null\<close>, \<open>false\<close>, zero, an empty string,
  list or object), or it is a list whose first element is an object whose \<open>message\<close> is
  absent, false, or an object.
\<close>

fun is_dict :: "pyval \<Rightarrow> bool" where
  "is_dict (PDict d) = True"
| "is_dict v = False"

fun is_list :: "pyval \<Rightarrow> bool" where
  "is_list (PList xs) = True"
| "is_list v = False"

definition message_ok :: "pyval \<Rightarrow> bool" where
  "message_ok m \<longleftrightarrow> is_dict m \<or> \<not> truthy m"

fun choice_ok :: "pyval \<Rightarrow> bool" where
  "choice_ok (PDict choice) = message_ok (dict_get choice ''message'' (PDict []))"
| "choice_ok v = False"

fun choices_ok :: "pyval \<Rightarrow> bool" where
  "choices_ok (PList (x # xs)) = choice_ok x"
| "choices_ok v = (\<not> truthy v)"

fun body_ok :: "pyval \<Rightarrow> bool" where
  "body_ok (PDict d) = choices_ok (dict_get d ''choices'' PNone)"
| "body_ok v = False"

section \<open>Facts about characters and prefixes\<close>

lemma of_char_lt: "(of_char c :: nat) < 256"
  by (cases c) simp

lemma char_eq_iff_nat: "c = d \<longleftrightarrow> (of_char c :: nat) = of_char d"
  by (metis char_of_char)

lemma of_char_lower_char:
  "(of_char (lower_char c) :: nat) =
     (let n = of_char c
      in if (65 \<le> n \<and> n \<le> 90) \<or> (192 \<le> n \<and> n \<le> 222 \<and> n \<noteq> 215) then n + 32 else n)"
  using of_char_lt [of c] by (auto simp: lower_char_def Let_def)

lemma of_char_upper_ascii:
  "(of_char (upper_ascii p) :: nat) =
     (let n = of_char p in if 97 \<le> n \<and> n \<le> 122 then n - 32 else n)"
  using of_char_lt [of p] by (auto simp: upper_ascii_def Let_def)

text \<open>
  For an ASCII character \<open>p\<close> that is not a capital, \<open>lower\<close> yields \<open>p\<close> exactly from
  \<open>p\<close> itself and from its capital.
\<close>

lemma lower_char_iff:
  assumes "(of_char p :: nat) < 65 \<or> (90 < (of_char p :: nat) \<and> (of_char p :: nat) < 128)"
  shows "lower_char c = p \<longleftrightarrow> (c = p \<or> c = upper_ascii p)"
proof -
  define n m :: nat where "n = of_char c" and "m = of_char p"
  have L: "lower_char c = p \<longleftrightarrow>
      (if (65 \<le> n \<and> n \<le> 90) \<or> (192 \<le> n \<and> n \<le> 222 \<and> n \<noteq> 215) then n + 32 else n) = m"
    unfolding n_def m_def char_eq_iff_nat [of "lower_char c"] of_char_lower_char Let_def ..
  have E: "c = p \<longleftrightarrow> n = m"
    unfolding n_def m_def by (rule char_eq_iff_nat)
  have U: "c = upper_ascii p \<longleftrightarrow> n = (if 97 \<le> m \<and> m \<le> 122 then m - 32 else m)"
    unfolding n_def m_def char_eq_iff_nat [of c "upper_ascii p"] of_char_upper_ascii Let_def ..
  have "n < 256" unfolding n_def by (rule of_char_lt)
  moreover have "m < 65 \<or> (90 < m \<and> m < 128)" using assms unfolding m_def .
  ultimately show ?thesis
    unfolding L E U by (auto split: if_splits)
qed

lemma startswith_lower_iff:
  "list_all plain_ascii p \<Longrightarrow> startswith (lower s) p \<longleftrightarrow> begins_ci p s"
proof (induction p s rule: begins_ci.induct)
  case (1 s)
  then show ?case by (simp add: startswith_def)
next
  case (2 p ps)
  then show ?case by (simp add: startswith_def lower_def)
next
  case (3 p ps c cs)
  from 3 have "lower_char c = p \<longleftrightarrow> (c = p \<or> c = upper_ascii p)"
    by (intro lower_char_iff) (simp add: plain_ascii_def)
  moreover from 3 have "startswith (lower cs) ps \<longleftrightarrow> begins_ci ps cs"
    by simp
  ultimately show ?case
    by (simp add: startswith_def lower_def)
qed

lemma startswith_claude:
  "startswith (lower model) ''claude-'' \<longleftrightarrow> begins_ci ''claude-'' model"
  by (rule startswith_lower_iff) (simp add: plain_ascii_def)

lemma startswith_gpt:
  "startswith (lower model) ''gpt-'' \<longleftrightarrow> begins_ci ''gpt-'' model"
  by (rule startswith_lower_iff) (simp add: plain_ascii_def)

lemma router_claude:
  "begins_ci ''claude-'' model \<Longrightarrow> router model = Inr (''anthropic/messages'', ''anthropic'')"
  by (simp add: router_def startswith_claude)

lemma gpt_not_claude: "begins_ci ''gpt-'' model \<Longrightarrow> \<not> begins_ci ''claude-'' model"
  by (cases model) (auto simp: upper_ascii_def char_of_def bit_0)

lemma router_gpt:
  "begins_ci ''gpt-'' model \<Longrightarrow> router model = Inr (''openai/chat/completions'', ''openai'')"
  using gpt_not_claude [of model] by (simp add: router_def startswith_claude startswith_gpt)

section \<open>Facts about dictionaries\<close>

lemma map_of_dict_setitem: "map_of (dict_setitem key v d) = (map_of d)(key \<mapsto> v)"
  by (induction key v d rule: dict_setitem.induct) auto

lemma keys_dict_setitem: "fst ` set (dict_setitem key v d) = insert key (fst ` set d)"
  by (induction key v d rule: dict_setitem.induct) auto

lemma distinct_dict_setitem:
  "distinct (map fst d) \<Longrightarrow> distinct (map fst (dict_setitem key v d))"
  by (induction key v d rule: dict_setitem.induct) (auto simp: keys_dict_setitem)

text \<open>Updating with a dict whose keys are distinct: the keys of \<open>other\<close> win.\<close>

lemma map_of_dict_update:
  "distinct (map fst other) \<Longrightarrow> map_of (dict_update d other) = map_of d ++ map_of other"
proof (induction d other rule: dict_update.induct)
  case (1 d)
  then show ?case by simp
next
  case (2 d k v other)
  then have "k \<notin> dom (map_of other)"
    by (auto simp: dom_map_of_conv_image_fst)
  with 2 show ?case
    by (auto simp: map_of_dict_setitem fun_eq_iff map_add_def split: option.splits)
qed

lemma distinct_dict_update:
  "distinct (map fst d) \<Longrightarrow> distinct (map fst (dict_update d other))"
  by (induction d other rule: dict_update.induct) (auto simp: distinct_dict_setitem)

lemma map_of_without:
  "map_of (filter (\<lambda>(k, v). k \<noteq> key) d) = (map_of d)(key := None)"
  by (induction d) (auto simp: fun_eq_iff)

lemma distinct_without:
  "distinct (map fst d) \<Longrightarrow> distinct (map fst (filter (\<lambda>(k, v). k \<noteq> key) d))"
  by (induction d) auto

text \<open>The body for the provider \<open>anthropic\<close>, as a map: the defaults, then the keywords.\<close>

lemma build_payload_claude_map:
  assumes "begins_ci ''claude-'' model" and "kwargs_ok kwargs"
  shows "\<exists>payload. build_payload model user_text kwargs = Inr payload
      \<and> map_of payload =
          map_of [(''model'', PStr model), (''max_tokens'', PInt 256),
                  (''messages'',
                     PList [PDict [(''role'', PStr ''user''), (''content'', PStr user_text)]])]
          ++ map_of kwargs
      \<and> distinct (map fst payload)"
proof -
  have d: "distinct (map fst kwargs)"
    using assms(2) by (simp add: kwargs_ok_def)
  show ?thesis
    using assms(2) d
    by (auto simp: build_payload_def router_claude [OF assms(1)] and_then_def dict_pop_def
        map_of_dict_update distinct_without map_of_without dict_get_def distinct_dict_update
        fun_eq_iff map_add_def split: option.splits)
qed

lemma build_payload_gpt_map:
  assumes "begins_ci ''gpt-'' model" and "kwargs_ok kwargs"
  shows "\<exists>payload. build_payload model user_text kwargs = Inr payload
      \<and> map_of payload =
          map_of [(''model'', PStr model),
                  (''messages'',
                     PList [PDict [(''role'', PStr ''user''), (''content'', PStr user_text)]])]
          ++ map_of kwargs
      \<and> distinct (map fst payload)"
proof -
  have d: "distinct (map fst kwargs)"
    using assms(2) by (simp add: kwargs_ok_def)
  show ?thesis
    using assms(2) d
    by (auto simp: build_payload_def router_gpt [OF assms(1)] and_then_def
        map_of_dict_update distinct_dict_update)
qed

lemma kwargs_ok_no_model: "kwargs_ok kwargs \<Longrightarrow> map_of kwargs ''model'' = None"
  by (simp add: kwargs_ok_def map_of_eq_None_iff)

section \<open>Facts about the normalizer\<close>

lemma has_choices_dict:
  "has_choices (PDict d) = Inr (truthy (dict_get d ''choices'' PNone))"
  by (auto simp: has_choices_def and_then_def dict_get_def split: option.splits)

lemma parse_fallback:
  assumes "\<not> truthy (dict_get d ''choices'' PNone)"
  shows "parse_result provider (PDict d) =
     Inr \<lparr>text' = PStr (py_str (PDict d)), model' = dict_get d ''model'' (PStr []),
          usage = py_or (dict_get d ''usage'' (PDict [])) (PDict []),
          finish_reason = PNone, raw = PDict d\<rparr>"
  using assms by (simp add: parse_result_def has_choices_dict and_then_def)

lemma first_choice_list:
  "dict_get d ''choices'' PNone = PList (x # xs) \<Longrightarrow> first_choice (PDict d) = Inr x"
  by (auto simp: first_choice_def and_then_def dict_get_def split: option.splits)

lemma parse_primary:
  assumes "dict_get d ''choices'' PNone = PList (PDict choice # rest)"
  shows "parse_result provider (PDict d) =
     and_then (py_get (py_or (dict_get choice ''message'' (PDict [])) (PDict [])) ''content'' (PStr []))
       (\<lambda>c. Inr \<lparr>text' = py_or c (PStr []),
                 model' = py_or (dict_get d ''model'' (PStr [])) (PStr []),
                 usage = py_or (dict_get d ''usage'' (PDict [])) (PDict []),
                 finish_reason = dict_get choice ''finish_reason'' PNone, raw = PDict d\<rparr>)"
  using assms
  by (simp add: parse_result_def has_choices_dict first_choice_list [OF assms] and_then_def)

lemma py_get_ok: "(\<exists>v. py_get x key dflt = Inr v) \<longleftrightarrow> is_dict x"
  by (cases x) auto

lemma parse_truthy:
  assumes "truthy (dict_get d ''choices'' PNone)"
  shows "(\<exists>r. parse_result provider (PDict d) = Inr r) \<longleftrightarrow> choices_ok (dict_get d ''choices'' PNone)"
proof -
  have fc: "first_choice (PDict d) = py_getitem0 (dict_get d ''choices'' PNone)"
    using assms by (auto simp: first_choice_def and_then_def dict_get_def split: option.splits)
  show ?thesis
  proof (cases "dict_get d ''choices'' PNone" rule: choices_ok.cases)
    case (1 x xs)
    show ?thesis
    proof (cases x)
      case (PDict choice)
      have "is_dict (py_or m (PDict [])) \<longleftrightarrow> message_ok m" for m
        by (cases m) (auto simp: py_or_def message_ok_def)
      moreover have "(\<exists>r. parse_result provider (PDict d) = Inr r) \<longleftrightarrow>
          (\<exists>v. py_get (py_or (dict_get choice ''message'' (PDict [])) (PDict []))
                  ''content'' (PStr []) = Inr v)"
        using 1 PDict by (auto simp: parse_primary and_then_def split: sum.splits)
      ultimately show ?thesis
        using 1 PDict by (simp add: py_get_ok)
    qed (use 1 assms in \<open>auto simp: parse_result_def has_choices_dict fc and_then_def\<close>)
  qed (use assms in \<open>auto simp: parse_result_def has_choices_dict fc and_then_def neq_Nil_conv\<close>)
qed

lemma returns_iff: "(\<exists>r. parse_result provider data = Inr r) \<longleftrightarrow> body_ok data"
proof (cases data)
  case (PDict d)
  show ?thesis
  proof (cases "truthy (dict_get d ''choices'' PNone)")
    case True
    then show ?thesis using PDict by (simp add: parse_truthy)
  next
    case False
    then have "choices_ok (dict_get d ''choices'' PNone)"
      by (cases "dict_get d ''choices'' PNone" rule: choices_ok.cases) auto
    with False show ?thesis using PDict by (simp add: parse_fallback)
  qed
qed (auto simp: parse_result_def has_choices_def and_then_def)

lemma first_choice_truthy:
  "truthy (dict_get d ''choices'' PNone) \<Longrightarrow>
   first_choice (PDict d) = py_getitem0 (dict_get d ''choices'' PNone)"
  by (auto simp: first_choice_def and_then_def dict_get_def split: option.splits)

text \<open>A first choice that is no object, or whose message is a true value that is no object.\<close>

lemma parse_choice_error:
  assumes "dict_get d ''choices'' PNone = PList (x # rest)" and "\<not> choice_ok x"
  shows "parse_result provider (PDict d) = Inl AttributeError"
proof (cases x)
  case (PDict choice)
  have "\<not> is_dict (py_or (dict_get choice ''message'' (PDict [])) (PDict []))"
    using assms(2) PDict
    by (cases "dict_get choice ''message'' (PDict [])") (auto simp: py_or_def message_ok_def)
  then have "py_get (py_or (dict_get choice ''message'' (PDict [])) (PDict [])) ''content'' (PStr [])
      = Inl AttributeError"
    by (cases "py_or (dict_get choice ''message'' (PDict [])) (PDict [])") auto
  then show ?thesis
    using assms(1) PDict by (simp add: parse_primary and_then_def)
qed (use assms in \<open>auto simp: parse_result_def has_choices_dict first_choice_list and_then_def\<close>)

text \<open>A true \<open>choices\<close> that is no list.\<close>

lemma parse_choices_error:
  assumes "truthy (dict_get d ''choices'' PNone)" and "\<not> is_list (dict_get d ''choices'' PNone)"
  shows "parse_result provider (PDict d) =
     (case dict_get d ''choices'' PNone of
        PStr s \<Rightarrow> Inl AttributeError | PDict kvs \<Rightarrow> Inl KeyError | _ \<Rightarrow> Inl TypeError)"
  using assms
  by (cases "dict_get d ''choices'' PNone")
     (auto simp: parse_result_def has_choices_dict first_choice_truthy and_then_def neq_Nil_conv)

lemma parse_not_object:
  "\<not> is_dict data \<Longrightarrow>
   parse_result provider data = Inl AttributeError \<or> parse_result provider data = Inl TypeError"
  by (cases data) (auto simp: parse_result_def has_choices_def and_then_def)

lemma raises_cases:
  assumes "\<not> body_ok data"
  shows "parse_result provider data = Inl AttributeError
       \<or> parse_result provider data = Inl TypeError
       \<or> parse_result provider data = Inl KeyError"
proof (cases data)
  case (PDict d)
  let ?c = "dict_get d ''choices'' PNone"
  have n: "\<not> choices_ok ?c"
    using assms PDict by simp
  have t: "truthy ?c"
    using n by (cases ?c rule: choices_ok.cases) auto
  show ?thesis
  proof (cases "is_list ?c")
    case True
    then obtain x rest where l: "?c = PList (x # rest)"
      using t by (cases ?c rule: choices_ok.cases) auto
    with n have "\<not> choice_ok x" by simp
    from parse_choice_error [OF l this] show ?thesis
      using PDict by simp
  next
    case False
    from parse_choices_error [OF t False, of provider] show ?thesis
      using PDict by (cases ?c) auto
  qed
qed (use parse_not_object [of data provider] in auto)

section \<open>Facts about the client\<close>

lemma takeWhile_slash:
  "takeWhile (\<lambda>c. c \<in> set ''/'') s = replicate (length (takeWhile (\<lambda>c. c \<in> set ''/'') s)) CHR ''/''"
  by (induction s) auto

lemma lstrip_slash:
  "\<exists>j. s = replicate j CHR ''/'' @ lstrip ''/'' s
     \<and> (lstrip ''/'' s = [] \<or> hd (lstrip ''/'' s) \<noteq> CHR ''/'')"
proof -
  have "s = takeWhile (\<lambda>c. c \<in> set ''/'') s @ lstrip ''/'' s"
    by (simp add: lstrip_def)
  then have "s = replicate (length (takeWhile (\<lambda>c. c \<in> set ''/'') s)) CHR ''/'' @ lstrip ''/'' s"
    using takeWhile_slash [of s] by simp
  moreover have "lstrip ''/'' s = [] \<or> hd (lstrip ''/'' s) \<noteq> CHR ''/''"
    using hd_dropWhile [of "\<lambda>c. c \<in> set ''/''" s] by (auto simp: lstrip_def)
  ultimately show ?thesis by blast
qed

lemma rstrip_slash:
  "\<exists>i. s = rstrip ''/'' s @ replicate i CHR ''/''
     \<and> (rstrip ''/'' s = [] \<or> last (rstrip ''/'' s) \<noteq> CHR ''/'')"
proof -
  obtain j where j: "rev s = replicate j CHR ''/'' @ lstrip ''/'' (rev s)"
    and h: "lstrip ''/'' (rev s) = [] \<or> hd (lstrip ''/'' (rev s)) \<noteq> CHR ''/''"
    using lstrip_slash [of "rev s"] by blast
  have r: "rstrip ''/'' s = rev (lstrip ''/'' (rev s))"
    by (simp add: rstrip_def lstrip_def)
  from j have "rev (rev s) = rev (replicate j CHR ''/'' @ lstrip ''/'' (rev s))"
    by simp
  then have "s = rstrip ''/'' s @ replicate j CHR ''/''"
    by (simp add: r)
  moreover have "rstrip ''/'' s = [] \<or> last (rstrip ''/'' s) \<noteq> CHR ''/''"
    using h by (auto simp: r last_rev)
  ultimately show ?thesis by blast
qed

lemma rstrip_unique:
  assumes "b0 = [] \<or> last b0 \<noteq> CHR ''/''"
  shows "rstrip ''/'' (b0 @ replicate i CHR ''/'') = b0"
proof -
  have "dropWhile (\<lambda>c. c \<in> set ''/'') (replicate i CHR ''/'' @ rev b0)
      = dropWhile (\<lambda>c. c \<in> set ''/'') (rev b0)"
    by (rule dropWhile_append2) simp
  also have "\<dots> = rev b0"
    using assms by (auto simp: dropWhile_eq_self_iff hd_rev)
  finally show ?thesis
    by (simp add: rstrip_def)
qed

lemma snd_init: "snd (init w api_key base_url timeout) = w"
  by (simp add: init_def split: option.splits)

lemma init_ok:
  assumes "opt_or api_key (environ w ''FACTCHAT_API_KEY'') = Some k" and "k \<noteq> []"
  shows "init w api_key base_url timeout =
     (Inr \<lparr>api_key' = k,
           base_url' = rstrip ''/'' (the (opt_or (opt_or base_url (environ w ''FACTCHAT_BASE_URL'')) (Some DEFAULT_BASE))),
           timeout' = timeout\<rparr>, w)"
  using assms by (auto simp: init_def opt_or_def DEFAULT_BASE_def split: option.splits)

lemma init_missing:
  assumes "opt_or api_key (environ w ''FACTCHAT_API_KEY'') = None \<or> opt_or api_key (environ w ''FACTCHAT_API_KEY'') = Some []"
  shows "init w api_key base_url timeout = (Inl (RuntimeError ''FACTCHAT_API_KEY missing''), w)"
  using assms by (auto simp: init_def)

lemma call_posts:
  assumes "router model = Inr (path, provider)" and "build_payload model user_text kwargs = Inr payload"
  shows "posts (snd (call self w model user_text kwargs)) =
     posts w @ [\<lparr>post_url = target_url self path, post_headers = headers self,
                 post_json = payload, post_timeout = timeout' self\<rparr>]"
proof -
  have "kwargs_ok kwargs"
    using assms(2) by (auto simp: build_payload_def split: if_splits)
  then show ?thesis
    using assms by (auto simp: call_def Let_def split: sum.splits option.splits)
qed

lemma init_base_url:
  assumes "init w api_key base_url timeout = (Inr self, w1)"
    and "opt_or (opt_or base_url (environ w ''FACTCHAT_BASE_URL'')) (Some DEFAULT_BASE) = Some base"
  shows "base_url' self = rstrip ''/'' base"
  using assms by (auto simp: init_def split: option.splits if_splits)

lemma router_Inr:
  assumes "router model = Inr (path, provider)"
  shows "(begins_ci ''claude-'' model \<and> path = ''anthropic/messages'')
       \<or> (begins_ci ''gpt-'' model \<and> path = ''openai/chat/completions'')"
  using assms by (auto simp: router_def startswith_claude startswith_gpt split: if_splits)

lemma routed_payload:
  assumes "router model = Inr (path, provider)" and "kwargs_ok kwargs"
  shows "\<exists>payload. build_payload model user_text kwargs = Inr payload"
  using router_Inr [OF assms(1)] build_payload_claude_map [OF _ assms(2), of model user_text]
    build_payload_gpt_map [OF _ assms(2), of model user_text]
  by blast

lemma routed_path: "router model = Inr (path, provider) \<Longrightarrow> lstrip ''/'' path = path"
  by (auto dest!: router_Inr simp: lstrip_def)

section \<open>Claims about the router\<close>

text \<open>
  C1. For every model name: if it begins with \<open>claude-\<close> (in any case) the router returns
  the path \<open>anthropic/messages\<close> with the provider \<open>anthropic\<close>; if it begins with
  \<open>gpt-\<close> (in any case) it returns \<open>openai/chat/completions\<close> with the provider
  \<open>openai\<close>; for every other name it fails with \<open>ValueError\<close>, whose message ends with
  the model name as it was given.
\<close>

theorem router_by_prefix:
  "router model =
     (if begins_ci ''claude-'' model then Inr (''anthropic/messages'', ''anthropic'')
      else if begins_ci ''gpt-'' model then Inr (''openai/chat/completions'', ''openai'')
      else Inl (ValueError (''Unsupported model: '' @ model)))"
  unfolding router_def Let_def startswith_claude startswith_gpt by simp

theorem router_by_prefix_witness:
  "router ''Claude-3-Haiku'' = Inr (''anthropic/messages'', ''anthropic'')
   \<and> router ''GPT-5-mini'' = Inr (''openai/chat/completions'', ''openai'')
   \<and> router ''gemini-pro'' = Inl (ValueError ''Unsupported model: gemini-pro'')"
  using router_by_prefix [of "''Claude-3-Haiku''"] router_by_prefix [of "''GPT-5-mini''"]
    router_by_prefix [of "''gemini-pro''"]
  by (simp add: upper_ascii_def char_of_def bit_0)

section \<open>Claims about the payload builder\<close>

text \<open>
  C3. For every model name that begins with \<open>claude-\<close>, every prompt and every set of extra
  keyword arguments, \<open>build_payload\<close> returns a body that holds the model name under
  \<open>model\<close>; under \<open>max_tokens\<close> the caller's value, and 256 when the caller gave none;
  under \<open>messages\<close> the caller's value, and when the caller gave none the list of one
  message with the role \<open>user\<close> and the prompt as its content. Every extra keyword is in
  the body with the caller's value, whatever the builder had put under that key; the
  body has no other key, and each key once.
\<close>

theorem build_payload_anthropic:
  assumes "begins_ci ''claude-'' model" and "kwargs_ok kwargs"
  shows "\<exists>payload. build_payload model user_text kwargs = Inr payload
      \<and> map_of payload ''model'' = Some (PStr model)
      \<and> map_of payload ''max_tokens'' = Some (dict_get kwargs ''max_tokens'' (PInt 256))
      \<and> map_of payload ''messages'' =
          Some (dict_get kwargs ''messages''
                  (PList [PDict [(''role'', PStr ''user''), (''content'', PStr user_text)]]))
      \<and> (\<forall>k v. map_of kwargs k = Some v \<longrightarrow> map_of payload k = Some v)
      \<and> fst ` set payload = {''model'', ''max_tokens'', ''messages''} \<union> fst ` set kwargs
      \<and> distinct (map fst payload)"
proof -
  from build_payload_claude_map [OF assms, of user_text]
  obtain payload where p: "build_payload model user_text kwargs = Inr payload"
    and m: "map_of payload =
          map_of [(''model'', PStr model), (''max_tokens'', PInt 256),
                  (''messages'',
                     PList [PDict [(''role'', PStr ''user''), (''content'', PStr user_text)]])]
          ++ map_of kwargs"
    and dp: "distinct (map fst payload)"
    by blast
  have "dom (map_of payload) = {''model'', ''max_tokens'', ''messages''} \<union> dom (map_of kwargs)"
    unfolding m by auto
  then have keys: "fst ` set payload = {''model'', ''max_tokens'', ''messages''} \<union> fst ` set kwargs"
    by (simp only: dom_map_of_conv_image_fst)
  have "map_of payload ''model'' = Some (PStr model)"
    unfolding m using kwargs_ok_no_model [OF assms(2)] by (simp add: map_add_def)
  moreover have "map_of payload ''max_tokens'' = Some (dict_get kwargs ''max_tokens'' (PInt 256))"
    unfolding m by (simp add: map_add_def dict_get_def split: option.splits)
  moreover have "map_of payload ''messages'' =
          Some (dict_get kwargs ''messages''
                  (PList [PDict [(''role'', PStr ''user''), (''content'', PStr user_text)]]))"
    unfolding m by (simp add: map_add_def dict_get_def split: option.splits)
  moreover have "\<forall>k v. map_of kwargs k = Some v \<longrightarrow> map_of payload k = Some v"
    unfolding m by (simp add: map_add_def)
  ultimately show ?thesis
    using p keys dp by blast
qed

text \<open>The call \<open>build_payload("claude-3-haiku", "ping", max_tokens=10)\<close>.\<close>

theorem build_payload_anthropic_witness:
  "begins_ci ''claude-'' ''claude-3-haiku'' \<and> kwargs_ok [(''max_tokens'', PInt 10)]
   \<and> (\<exists>payload. build_payload ''claude-3-haiku'' ''ping'' [(''max_tokens'', PInt 10)] = Inr payload
      \<and> map_of payload ''model'' = Some (PStr ''claude-3-haiku'')
      \<and> map_of payload ''max_tokens'' = Some (PInt 10)
      \<and> map_of payload ''messages'' =
          Some (PList [PDict [(''role'', PStr ''user''), (''content'', PStr ''ping'')]])
      \<and> fst ` set payload = {''model'', ''max_tokens'', ''messages''})"
proof -
  have b: "begins_ci ''claude-'' ''claude-3-haiku''"
    by simp
  have k: "kwargs_ok [(''max_tokens'', PInt 10)]"
    by (simp add: kwargs_ok_def)
  show ?thesis
    using b k build_payload_anthropic [OF b k, of "''ping''"]
    by (auto simp: dict_get_def)
qed

text \<open>
  C8. For every model name that begins with \<open>gpt-\<close>, every prompt and every set of extra
  keyword arguments, \<open>build_payload\<close> returns a body that holds the model name under
  \<open>model\<close>; under \<open>messages\<close> the caller's value, and when the caller gave none the list
  of one message with the role \<open>user\<close> and the prompt as its content; and every extra
  keyword with the caller's value. It has no other key, and each key once: \<open>max_tokens\<close>
  is a key of the body exactly when the caller gave it.
\<close>

theorem build_payload_openai:
  assumes "begins_ci ''gpt-'' model" and "kwargs_ok kwargs"
  shows "\<exists>payload. build_payload model user_text kwargs = Inr payload
      \<and> map_of payload ''model'' = Some (PStr model)
      \<and> map_of payload ''messages'' =
          Some (dict_get kwargs ''messages''
                  (PList [PDict [(''role'', PStr ''user''), (''content'', PStr user_text)]]))
      \<and> (\<forall>k v. map_of kwargs k = Some v \<longrightarrow> map_of payload k = Some v)
      \<and> fst ` set payload = {''model'', ''messages''} \<union> fst ` set kwargs
      \<and> distinct (map fst payload)
      \<and> map_of payload ''max_tokens'' = map_of kwargs ''max_tokens''"
proof -
  from build_payload_gpt_map [OF assms, of user_text]
  obtain payload where p: "build_payload model user_text kwargs = Inr payload"
    and m: "map_of payload =
          map_of [(''model'', PStr model),
                  (''messages'',
                     PList [PDict [(''role'', PStr ''user''), (''content'', PStr user_text)]])]
          ++ map_of kwargs"
    and dp: "distinct (map fst payload)"
    by blast
  have "dom (map_of payload) = {''model'', ''messages''} \<union> dom (map_of kwargs)"
    unfolding m by auto
  then have keys: "fst ` set payload = {''model'', ''messages''} \<union> fst ` set kwargs"
    by (simp only: dom_map_of_conv_image_fst)
  have "map_of payload ''model'' = Some (PStr model)"
    unfolding m using kwargs_ok_no_model [OF assms(2)] by (simp add: map_add_def)
  moreover have "map_of payload ''messages'' =
          Some (dict_get kwargs ''messages''
                  (PList [PDict [(''role'', PStr ''user''), (''content'', PStr user_text)]]))"
    unfolding m by (simp add: map_add_def dict_get_def split: option.splits)
  moreover have "\<forall>k v. map_of kwargs k = Some v \<longrightarrow> map_of payload k = Some v"
    unfolding m by (simp add: map_add_def)
  moreover have "map_of payload ''max_tokens'' = map_of kwargs ''max_tokens''"
    unfolding m by (simp add: map_add_def split: option.splits)
  ultimately show ?thesis
    using p keys dp by blast
qed

text \<open>The call \<open>build_payload("gpt-5-mini", "ping")\<close>: its body has no \<open>max_tokens\<close>.\<close>

theorem build_payload_openai_witness:
  "begins_ci ''gpt-'' ''gpt-5-mini'' \<and> kwargs_ok []
   \<and> (\<exists>payload. build_payload ''gpt-5-mini'' ''ping'' [] = Inr payload
      \<and> map_of payload ''model'' = Some (PStr ''gpt-5-mini'')
      \<and> map_of payload ''messages'' =
          Some (PList [PDict [(''role'', PStr ''user''), (''content'', PStr ''ping'')]])
      \<and> fst ` set payload = {''model'', ''messages''}
      \<and> map_of payload ''max_tokens'' = None)"
proof -
  have b: "begins_ci ''gpt-'' ''gpt-5-mini''"
    by simp
  have k: "kwargs_ok []"
    by (simp add: kwargs_ok_def)
  show ?thesis
    using b k build_payload_openai [OF b k, of "''ping''"]
    by (auto simp: dict_get_def)
qed

section \<open>Claims about the response normalizer\<close>

text \<open>
  C2, as the code has it. The claim reads: for every provider and every decoded body the
  normalizer returns a result and never fails. It does fail: on the body
  \<open>{"choices": [1]}\<close> the first choice is a number, which has no \<open>get\<close>, and the
  normalizer raises \<open>AttributeError\<close>.
\<close>

theorem parse_result_raises:
  "parse_result ''openai'' (PDict [(''choices'', PList [PInt 1])]) = Inl AttributeError"
  by (simp add: parse_result_def has_choices_def first_choice_def and_then_def dict_get_def)

text \<open>
  C2, amended. For every provider and every decoded body, the normalizer returns a result
  exactly when the body is an object whose \<open>choices\<close> is absent or false, or is a list
  whose first element is an object whose \<open>message\<close> is absent, false or an object. On
  every other body it raises \<open>AttributeError\<close>, \<open>TypeError\<close> or \<open>KeyError\<close>.
\<close>

theorem parse_result_returns_iff:
  "((\<exists>r. parse_result provider data = Inr r) \<longleftrightarrow> body_ok data)
   \<and> (\<not> body_ok data \<longrightarrow>
        parse_result provider data = Inl AttributeError
        \<or> parse_result provider data = Inl TypeError
        \<or> parse_result provider data = Inl KeyError)"
  using returns_iff [of provider data] raises_cases [of data provider] by blast

text \<open>
  An answer in the shape of Anthropic's API and a body that holds an error only, on which
  the normalizer returns; and the bodies \<open>{"choices": [{"message": "hi"}]}\<close>,
  \<open>{"choices": 7}\<close> and \<open>{"choices": {"a": 1}}\<close>, on which it raises.
\<close>

theorem parse_result_returns_iff_witness:
  "body_ok (PDict [(''type'', PStr ''message''), (''content'', PList [PDict [(''text'', PStr ''pong'')]])])
   \<and> (\<exists>r. parse_result ''anthropic''
          (PDict [(''type'', PStr ''message''), (''content'', PList [PDict [(''text'', PStr ''pong'')]])])
        = Inr r)
   \<and> body_ok (PDict [(''choices'', PList []), (''error'', PStr ''overloaded'')])
   \<and> (\<exists>r. parse_result ''openai'' (PDict [(''choices'', PList []), (''error'', PStr ''overloaded'')])
        = Inr r)
   \<and> \<not> body_ok (PDict [(''choices'', PList [PDict [(''message'', PStr ''hi'')]])])
   \<and> parse_result ''openai'' (PDict [(''choices'', PList [PDict [(''message'', PStr ''hi'')]])])
     = Inl AttributeError
   \<and> \<not> body_ok (PDict [(''choices'', PInt 7)])
   \<and> parse_result ''openai'' (PDict [(''choices'', PInt 7)]) = Inl TypeError
   \<and> \<not> body_ok (PDict [(''choices'', PDict [(''a'', PInt 1)])])
   \<and> parse_result ''openai'' (PDict [(''choices'', PDict [(''a'', PInt 1)])]) = Inl KeyError"
proof -
  have e1: "parse_result ''openai'' (PDict [(''choices'', PList [PDict [(''message'', PStr ''hi'')]])])
      \<noteq> Inl TypeError
    \<and> parse_result ''openai'' (PDict [(''choices'', PList [PDict [(''message'', PStr ''hi'')]])])
      \<noteq> Inl KeyError"
    by (simp add: parse_result_def has_choices_def first_choice_def and_then_def dict_get_def py_or_def)
  have e2: "parse_result ''openai'' (PDict [(''choices'', PInt 7)]) \<noteq> Inl AttributeError
    \<and> parse_result ''openai'' (PDict [(''choices'', PInt 7)]) \<noteq> Inl KeyError"
    by (simp add: parse_result_def has_choices_def first_choice_def and_then_def dict_get_def)
  have e3: "parse_result ''openai'' (PDict [(''choices'', PDict [(''a'', PInt 1)])]) \<noteq> Inl AttributeError
    \<and> parse_result ''openai'' (PDict [(''choices'', PDict [(''a'', PInt 1)])]) \<noteq> Inl TypeError"
    by (simp add: parse_result_def has_choices_def first_choice_def and_then_def dict_get_def)
  show ?thesis
    using e1 e2 e3
      parse_result_returns_iff
        [of "''anthropic''"
            "PDict [(''type'', PStr ''message''), (''content'', PList [PDict [(''text'', PStr ''pong'')]])]"]
      parse_result_returns_iff
        [of "''openai''" "PDict [(''choices'', PList []), (''error'', PStr ''overloaded'')]"]
      parse_result_returns_iff
        [of "''openai''" "PDict [(''choices'', PList [PDict [(''message'', PStr ''hi'')]])]"]
      parse_result_returns_iff [of "''openai''" "PDict [(''choices'', PInt 7)]"]
      parse_result_returns_iff [of "''openai''" "PDict [(''choices'', PDict [(''a'', PInt 1)])]"]
    by (simp add: dict_get_def message_ok_def)
qed

text \<open>
  C4, as the code has it. The claim reads: for every body that holds a non-empty list of
  choices, the normalizer returns a result whose text is the content of the first
  choice's message. On the body \<open>{"choices": [{"message": {"content": 0}}]}\<close> the content
  is \<open>0\<close> and the text is the empty string; on the body \<open>{"choices": [null]}\<close> the
  normalizer returns nothing: it raises \<open>AttributeError\<close>.
\<close>

theorem parse_result_content_zero:
  "parse_result ''openai''
     (PDict [(''choices'', PList [PDict [(''message'', PDict [(''content'', PInt 0)])]])])
   = Inr \<lparr>text' = PStr [], model' = PStr [], usage = PDict [], finish_reason = PNone,
          raw = PDict [(''choices'', PList [PDict [(''message'', PDict [(''content'', PInt 0)])]])]\<rparr>
   \<and> parse_result ''openai'' (PDict [(''choices'', PList [PNone])]) = Inl AttributeError"
  by (simp add: parse_result_def has_choices_def first_choice_def and_then_def dict_get_def py_or_def)

text \<open>
  C4, amended. Take any body that holds under \<open>choices\<close> a non-empty list, with first
  element \<open>x\<close>. When \<open>x\<close> is an object \<open>choice\<close> whose \<open>message\<close> is absent, false or an
  object, let \<open>msg\<close> be that message, and the empty object when the message is absent or
  false. Then the normalizer returns a result: its text is the \<open>content\<close> of \<open>msg\<close> when
  that is a true value, and the empty string when it is absent or false; its finish
  reason is the \<open>finish_reason\<close> of \<open>choice\<close>, and \<open>None\<close> when absent; its usage is the
  \<open>usage\<close> of the body when that is a true value, and the empty object when it is absent
  or false; its model is the \<open>model\<close> of the body when that is a true value, and the empty
  string when it is absent or false; its \<open>raw\<close> is the body. When \<open>x\<close> is anything
  else, the normalizer raises \<open>AttributeError\<close>.
\<close>

theorem parse_result_primary:
  assumes "map_of d ''choices'' = Some (PList (x # rest))"
  shows "(choice_ok x \<longrightarrow>
        (\<exists>choice msg. x = PDict choice
           \<and> (if truthy (dict_get choice ''message'' (PDict []))
               then dict_get choice ''message'' (PDict []) else PDict []) = PDict msg))
     \<and> (\<forall>choice msg. x = PDict choice
           \<and> (if truthy (dict_get choice ''message'' (PDict []))
               then dict_get choice ''message'' (PDict []) else PDict []) = PDict msg \<longrightarrow>
          parse_result provider (PDict d) =
            Inr \<lparr>text' = (if truthy (dict_get msg ''content'' (PStr []))
                           then dict_get msg ''content'' (PStr []) else PStr []),
                 model' = (if truthy (dict_get d ''model'' (PStr []))
                           then dict_get d ''model'' (PStr []) else PStr []),
                 usage = (if truthy (dict_get d ''usage'' (PDict []))
                          then dict_get d ''usage'' (PDict []) else PDict []),
                 finish_reason = dict_get choice ''finish_reason'' PNone,
                 raw = PDict d\<rparr>)
     \<and> (\<not> choice_ok x \<longrightarrow> parse_result provider (PDict d) = Inl AttributeError)"
proof -
  have c: "dict_get d ''choices'' PNone = PList (x # rest)"
    using assms by (simp add: dict_get_def)
  have "\<exists>choice msg. x = PDict choice
      \<and> (if truthy (dict_get choice ''message'' (PDict []))
          then dict_get choice ''message'' (PDict []) else PDict []) = PDict msg"
    if "choice_ok x"
  proof -
    from that obtain choice where x: "x = PDict choice"
      by (cases x) auto
    with that have "message_ok (dict_get choice ''message'' (PDict []))"
      by simp
    then have "\<exists>msg. (if truthy (dict_get choice ''message'' (PDict []))
        then dict_get choice ''message'' (PDict []) else PDict []) = PDict msg"
      by (cases "dict_get choice ''message'' (PDict [])") (auto simp: message_ok_def)
    with x show ?thesis by blast
  qed
  moreover have "parse_result provider (PDict d) =
      Inr \<lparr>text' = (if truthy (dict_get msg ''content'' (PStr []))
                     then dict_get msg ''content'' (PStr []) else PStr []),
           model' = (if truthy (dict_get d ''model'' (PStr []))
                     then dict_get d ''model'' (PStr []) else PStr []),
           usage = (if truthy (dict_get d ''usage'' (PDict []))
                    then dict_get d ''usage'' (PDict []) else PDict []),
           finish_reason = dict_get choice ''finish_reason'' PNone,
           raw = PDict d\<rparr>"
    if "x = PDict choice"
      and "(if truthy (dict_get choice ''message'' (PDict []))
            then dict_get choice ''message'' (PDict []) else PDict []) = PDict msg"
    for choice msg
  proof -
    have m: "py_or (dict_get choice ''message'' (PDict [])) (PDict []) = PDict msg"
      using that(2) by (simp add: py_or_def)
    have "dict_get d ''choices'' PNone = PList (PDict choice # rest)"
      using c that(1) by simp
    from parse_primary [OF this, of provider] show ?thesis
      unfolding m by (simp add: and_then_def py_or_def)
  qed
  moreover have "parse_result provider (PDict d) = Inl AttributeError" if "\<not> choice_ok x"
    using c that by (rule parse_choice_error)
  ultimately show ?thesis
    by blast
qed

text \<open>The body of the specification's example, with the result it names.\<close>

theorem parse_result_primary_witness:
  "choice_ok (PDict [(''message'', PDict [(''content'', PStr ''pong'')]), (''finish_reason'', PStr ''stop'')])
   \<and> parse_result ''openai''
     (PDict [(''choices'', PList [PDict [(''message'', PDict [(''content'', PStr ''pong'')]),
                                         (''finish_reason'', PStr ''stop'')]]),
             (''usage'', PDict [(''total_tokens'', PInt 5)]),
             (''model'', PStr ''gpt-5-mini'')])
   = Inr \<lparr>text' = PStr ''pong'', model' = PStr ''gpt-5-mini'',
          usage = PDict [(''total_tokens'', PInt 5)], finish_reason = PStr ''stop'',
          raw = PDict [(''choices'', PList [PDict [(''message'', PDict [(''content'', PStr ''pong'')]),
                                                   (''finish_reason'', PStr ''stop'')]]),
                       (''usage'', PDict [(''total_tokens'', PInt 5)]),
                       (''model'', PStr ''gpt-5-mini'')]\<rparr>"
  using parse_result_primary
    [of "[(''choices'', PList [PDict [(''message'', PDict [(''content'', PStr ''pong'')]),
                                      (''finish_reason'', PStr ''stop'')]]),
          (''usage'', PDict [(''total_tokens'', PInt 5)]),
          (''model'', PStr ''gpt-5-mini'')]"
        "PDict [(''message'', PDict [(''content'', PStr ''pong'')]), (''finish_reason'', PStr ''stop'')]"
        "[]" "''openai''"]
  by (simp add: dict_get_def message_ok_def)

text \<open>
  C5, as the code has it. The claim reads: for every body in which the primary shape, a
  non-empty list of choices, is not recognized, the normalizer returns the rendering of
  the whole body as its text. In the body \<open>{"choices": "abc"}\<close> the choices are a string,
  no list, and the normalizer raises \<open>AttributeError\<close>.
\<close>

theorem parse_result_choices_text:
  "parse_result ''anthropic'' (PDict [(''choices'', PStr ''abc'')]) = Inl AttributeError"
  by (simp add: parse_result_def has_choices_def first_choice_def and_then_def dict_get_def)

text \<open>
  C5, amended. For every body that is an object: when its \<open>choices\<close> is absent or false
  (\<open>null\<close>, \<open>false\<close>, zero, an empty string, list or object), the normalizer returns a
  result whose text is \<open>str\<close> of the whole body, whose usage is the \<open>usage\<close> of the body
  when that is a true value, and the empty object when it is absent or false, whose
  finish reason is \<open>None\<close>, and whose model is the \<open>model\<close> of the body, and the empty
  string when the body has none. When its \<open>choices\<close> is a true value that is no list, the
  normalizer raises: \<open>AttributeError\<close> on a string, \<open>KeyError\<close> on an object,
  \<open>TypeError\<close> on \<open>true\<close> and on a number. And whenever the normalizer returns a result,
  on either path, its \<open>raw\<close> is the body it was given.
\<close>

theorem parse_result_fallback:
  "(\<not> truthy (dict_get d ''choices'' PNone) \<longrightarrow>
      parse_result provider (PDict d) =
        Inr \<lparr>text' = PStr (py_str (PDict d)), model' = dict_get d ''model'' (PStr []),
             usage = (if truthy (dict_get d ''usage'' (PDict []))
                      then dict_get d ''usage'' (PDict []) else PDict []),
             finish_reason = PNone, raw = PDict d\<rparr>)
   \<and> (truthy (dict_get d ''choices'' PNone) \<and> \<not> is_list (dict_get d ''choices'' PNone) \<longrightarrow>
      parse_result provider (PDict d) =
        (case dict_get d ''choices'' PNone of
           PStr s \<Rightarrow> Inl AttributeError | PDict kvs \<Rightarrow> Inl KeyError | _ \<Rightarrow> Inl TypeError))
   \<and> (\<forall>provider' data r. parse_result provider' data = Inr r \<longrightarrow> raw r = data)"
proof -
  have "raw r = data" if "parse_result provider' data = Inr r" for provider' data r
    using that
    by (auto simp: parse_result_def and_then_def split: sum.splits if_splits)
  then show ?thesis
    using parse_choices_error [of d provider] by (auto simp: parse_fallback py_or_def)
qed

text \<open>
  Bodies with no \<open>choices\<close>: \<open>{"id": 7, "usage": {"input_tokens": 3}}\<close> and
  \<open>{"usage": null, "model": null}\<close>; and the body \<open>{"choices": true}\<close>.
\<close>

theorem parse_result_fallback_witness:
  "\<not> truthy (dict_get [(''id'', PInt 7), (''usage'', PDict [(''input_tokens'', PInt 3)])] ''choices'' PNone)
   \<and> parse_result ''anthropic'' (PDict [(''id'', PInt 7), (''usage'', PDict [(''input_tokens'', PInt 3)])])
     = Inr \<lparr>text' = PStr (''{'' @ [CHR 0x27] @ ''id'' @ [CHR 0x27] @ '': 7, '' @ [CHR 0x27] @ ''usage''
                           @ [CHR 0x27] @ '': {'' @ [CHR 0x27] @ ''input_tokens'' @ [CHR 0x27] @ '': 3}}''),
            model' = PStr [], usage = PDict [(''input_tokens'', PInt 3)],
            finish_reason = PNone,
            raw = PDict [(''id'', PInt 7), (''usage'', PDict [(''input_tokens'', PInt 3)])]\<rparr>
   \<and> \<not> truthy (dict_get [(''usage'', PNone), (''model'', PNone)] ''choices'' PNone)
   \<and> parse_result ''anthropic'' (PDict [(''usage'', PNone), (''model'', PNone)])
     = Inr \<lparr>text' = PStr (''{'' @ [CHR 0x27] @ ''usage'' @ [CHR 0x27] @ '': None, '' @ [CHR 0x27]
                           @ ''model'' @ [CHR 0x27] @ '': None}''),
            model' = PNone, usage = PDict [], finish_reason = PNone,
            raw = PDict [(''usage'', PNone), (''model'', PNone)]\<rparr>
   \<and> truthy (dict_get [(''choices'', PBool True)] ''choices'' PNone)
   \<and> \<not> is_list (dict_get [(''choices'', PBool True)] ''choices'' PNone)
   \<and> parse_result ''anthropic'' (PDict [(''choices'', PBool True)]) = Inl TypeError"
proof -
  have s1: "py_str (PDict [(''id'', PInt 7), (''usage'', PDict [(''input_tokens'', PInt 3)])])
      = ''{'' @ [CHR 0x27] @ ''id'' @ [CHR 0x27] @ '': 7, '' @ [CHR 0x27] @ ''usage''
          @ [CHR 0x27] @ '': {'' @ [CHR 0x27] @ ''input_tokens'' @ [CHR 0x27] @ '': 3}}''"
    by code_simp
  have s2: "py_str (PDict [(''usage'', PNone), (''model'', PNone)])
      = ''{'' @ [CHR 0x27] @ ''usage'' @ [CHR 0x27] @ '': None, '' @ [CHR 0x27]
          @ ''model'' @ [CHR 0x27] @ '': None}''"
    by code_simp
  show ?thesis
    using parse_result_fallback
        [of "[(''id'', PInt 7), (''usage'', PDict [(''input_tokens'', PInt 3)])]" "''anthropic''"]
      parse_result_fallback [of "[(''usage'', PNone), (''model'', PNone)]" "''anthropic''"]
      parse_result_fallback [of "[(''choices'', PBool True)]" "''anthropic''"]
    unfolding s1 s2 by (simp add: dict_get_def)
qed

text \<open>
  C9. On the primary path (\<open>choices\<close> is a list whose first element is an object
  \<open>choice\<close>, whose \<open>message\<close> is absent, false or an object) the normalizer returns a
  result in which \<open>null\<close> has become the default: the text is the empty string when the
  \<open>message\<close> is \<open>null\<close> and when the \<open>content\<close> of the message is \<open>null\<close>; the usage is
  the empty object when the \<open>usage\<close> of the body is \<open>null\<close>; the model is the empty string
  when the \<open>model\<close> of the body is \<open>null\<close>.
\<close>

theorem parse_result_null_defaults:
  assumes "map_of d ''choices'' = Some (PList (PDict choice # rest))"
    and "message_ok (dict_get choice ''message'' (PDict []))"
  shows "\<exists>r. parse_result provider (PDict d) = Inr r
     \<and> (map_of choice ''message'' = Some PNone \<longrightarrow> text' r = PStr [])
     \<and> (\<forall>msg. map_of choice ''message'' = Some (PDict msg) \<and> map_of msg ''content'' = Some PNone
            \<longrightarrow> text' r = PStr [])
     \<and> (map_of d ''usage'' = Some PNone \<longrightarrow> usage r = PDict [])
     \<and> (map_of d ''model'' = Some PNone \<longrightarrow> model' r = PStr [])"
proof -
  have c: "dict_get d ''choices'' PNone = PList (PDict choice # rest)"
    using assms(1) by (simp add: dict_get_def)
  have "is_dict (py_or (dict_get choice ''message'' (PDict [])) (PDict []))"
    using assms(2) by (cases "dict_get choice ''message'' (PDict [])") (auto simp: py_or_def message_ok_def)
  then obtain m where m: "py_or (dict_get choice ''message'' (PDict [])) (PDict []) = PDict m"
    by (cases "py_or (dict_get choice ''message'' (PDict [])) (PDict [])") auto
  have p: "parse_result provider (PDict d) =
      Inr \<lparr>text' = py_or (dict_get m ''content'' (PStr [])) (PStr []),
           model' = py_or (dict_get d ''model'' (PStr [])) (PStr []),
           usage = py_or (dict_get d ''usage'' (PDict [])) (PDict []),
           finish_reason = dict_get choice ''finish_reason'' PNone, raw = PDict d\<rparr>"
    unfolding parse_primary [OF c] m by (simp add: and_then_def)
  have "map_of choice ''message'' = Some PNone \<Longrightarrow> m = []"
    using m by (simp add: dict_get_def py_or_def)
  moreover have "map_of choice ''message'' = Some (PDict msg) \<Longrightarrow> m = msg \<or> (msg = [] \<and> m = [])" for msg
    using m by (auto simp: dict_get_def py_or_def split: if_splits)
  ultimately show ?thesis
    unfolding p by (auto simp: dict_get_def py_or_def)
qed

text \<open>
  The bodies \<open>{"choices": [{"message": null}], "usage": null, "model": null}\<close> and
  \<open>{"choices": [{"message": {"content": null}}]}\<close>.
\<close>

theorem parse_result_null_defaults_witness:
  "message_ok (dict_get [(''message'', PNone)] ''message'' (PDict []))
   \<and> (\<exists>r. parse_result ''openai''
            (PDict [(''choices'', PList [PDict [(''message'', PNone)]]),
                    (''usage'', PNone), (''model'', PNone)]) = Inr r
        \<and> text' r = PStr [] \<and> usage r = PDict [] \<and> model' r = PStr [])
   \<and> message_ok (dict_get [(''message'', PDict [(''content'', PNone)])] ''message'' (PDict []))
   \<and> (\<exists>r. parse_result ''openai''
            (PDict [(''choices'', PList [PDict [(''message'', PDict [(''content'', PNone)])]])]) = Inr r
        \<and> text' r = PStr [])"
proof -
  have a: "message_ok (dict_get [(''message'', PNone)] ''message'' (PDict []))"
    by (simp add: message_ok_def dict_get_def)
  have b: "message_ok (dict_get [(''message'', PDict [(''content'', PNone)])] ''message'' (PDict []))"
    by (simp add: message_ok_def dict_get_def)
  show ?thesis
    using a b
      parse_result_null_defaults
        [of "[(''choices'', PList [PDict [(''message'', PNone)]]), (''usage'', PNone), (''model'', PNone)]"
            "[(''message'', PNone)]" "[]" "''openai''", OF _ a]
      parse_result_null_defaults
        [of "[(''choices'', PList [PDict [(''message'', PDict [(''content'', PNone)])]])]"
            "[(''message'', PDict [(''content'', PNone)])]" "[]" "''openai''", OF _ b]
    by simp
qed

section \<open>Claims about the client\<close>

text \<open>
  C6. Making a client takes the credential from the argument when one is given, and from
  the variable \<open>FACTCHAT_API_KEY\<close> of the environment when no argument is given. When
  there is no argument and the environment has no such variable, it fails with
  \<open>RuntimeError\<close> (\<open>FACTCHAT_API_KEY missing\<close>), and so does the script \<open>run_chat.py\<close>,
  which ends there, the world as it was: nothing has been posted. Making a client never
  posts anything.
\<close>

theorem init_credential:
  "(k \<noteq> [] \<longrightarrow>
      (\<exists>self. init w (Some k) base_url timeout = (Inr self, w) \<and> api_key' self = k))
   \<and> (environ w ''FACTCHAT_API_KEY'' = Some k \<and> k \<noteq> [] \<longrightarrow>
      (\<exists>self. init w None base_url timeout = (Inr self, w) \<and> api_key' self = k))
   \<and> (environ w ''FACTCHAT_API_KEY'' = None \<longrightarrow>
      init w None base_url timeout = (Inl (RuntimeError ''FACTCHAT_API_KEY missing''), w)
      \<and> run_chat w = (Inl (RuntimeError ''FACTCHAT_API_KEY missing''), w))
   \<and> posts (snd (init w api_key base_url timeout)) = posts w"
proof -
  have "\<exists>self. init w (Some k) base_url timeout = (Inr self, w) \<and> api_key' self = k" if "k \<noteq> []"
    using that init_ok [of "Some k" w k base_url timeout] by (simp add: opt_or_def)
  moreover have "\<exists>self. init w None base_url timeout = (Inr self, w) \<and> api_key' self = k"
    if "environ w ''FACTCHAT_API_KEY'' = Some k" and "k \<noteq> []"
    using that init_ok [of None w k base_url timeout] by (simp add: opt_or_def)
  moreover have "init w None b t = (Inl (RuntimeError ''FACTCHAT_API_KEY missing''), w)"
    if "environ w ''FACTCHAT_API_KEY'' = None" for b t
    using that init_missing [of None w b t] by (simp add: opt_or_def)
  moreover have "posts (snd (init w api_key base_url timeout)) = posts w"
    by (simp add: snd_init)
  ultimately show ?thesis
    by (simp add: run_chat_def)
qed

text \<open>
  A world with an empty environment, in which nothing has been posted; and the credential
  \<open>sk-test\<close> given as the argument.
\<close>

theorem init_credential_witness:
  "init \<lparr>environ = Map.empty, server = (\<lambda>request. Inl RequestException), posts = []\<rparr> None None 60
     = (Inl (RuntimeError ''FACTCHAT_API_KEY missing''),
        \<lparr>environ = Map.empty, server = (\<lambda>request. Inl RequestException), posts = []\<rparr>)
   \<and> posts (snd (run_chat \<lparr>environ = Map.empty, server = (\<lambda>request. Inl RequestException), posts = []\<rparr>))
     = []
   \<and> (\<exists>self. init \<lparr>environ = Map.empty, server = (\<lambda>request. Inl RequestException), posts = []\<rparr>
               (Some ''sk-test'') None 60
             = (Inr self, \<lparr>environ = Map.empty, server = (\<lambda>request. Inl RequestException), posts = []\<rparr>)
        \<and> api_key' self = ''sk-test'')"
  using init_credential
    [of "''sk-test''" "\<lparr>environ = Map.empty, server = (\<lambda>request. Inl RequestException), posts = []\<rparr>"
        None 60 None]
  by simp

text \<open>
  C10. An empty string given as the credential is the same as no argument: the result of
  making the client is the same, so the credential comes from the environment, and when
  the variable is absent or empty there too, making the client fails with the same
  \<open>RuntimeError\<close>. A client that was made never holds an empty credential.
\<close>

theorem init_empty_key:
  "init w (Some []) base_url timeout = init w None base_url timeout
   \<and> (environ w ''FACTCHAT_API_KEY'' = None \<or> environ w ''FACTCHAT_API_KEY'' = Some [] \<longrightarrow>
        init w (Some []) base_url timeout = (Inl (RuntimeError ''FACTCHAT_API_KEY missing''), w))
   \<and> (\<forall>self w1. init w api_key base_url timeout = (Inr self, w1) \<longrightarrow> api_key' self \<noteq> [])"
proof -
  have "init w (Some []) base_url timeout = init w None base_url timeout"
    by (simp add: init_def opt_or_def)
  moreover have "init w (Some []) base_url timeout = (Inl (RuntimeError ''FACTCHAT_API_KEY missing''), w)"
    if "environ w ''FACTCHAT_API_KEY'' = None \<or> environ w ''FACTCHAT_API_KEY'' = Some []"
    using that init_missing [of "Some []" w base_url timeout] by (auto simp: opt_or_def)
  moreover have "api_key' self \<noteq> []" if "init w api_key base_url timeout = (Inr self, w1)" for self w1
    using that by (auto simp: init_def split: option.splits if_splits)
  ultimately show ?thesis
    by blast
qed

text \<open>
  The environment holds the credential \<open>sk-env\<close>, then an empty one; the argument is the
  empty string.
\<close>

theorem init_empty_key_witness:
  "(\<exists>self. init \<lparr>environ = [''FACTCHAT_API_KEY'' \<mapsto> ''sk-env''],
                  server = (\<lambda>request. Inl RequestException), posts = []\<rparr> (Some []) None 60
            = (Inr self, \<lparr>environ = [''FACTCHAT_API_KEY'' \<mapsto> ''sk-env''],
                           server = (\<lambda>request. Inl RequestException), posts = []\<rparr>)
       \<and> api_key' self = ''sk-env'')
   \<and> init \<lparr>environ = [''FACTCHAT_API_KEY'' \<mapsto> []],
             server = (\<lambda>request. Inl RequestException), posts = []\<rparr> (Some []) None 60
     = (Inl (RuntimeError ''FACTCHAT_API_KEY missing''),
        \<lparr>environ = [''FACTCHAT_API_KEY'' \<mapsto> []],
          server = (\<lambda>request. Inl RequestException), posts = []\<rparr>)"
proof -
  define w1 :: world where
    "w1 = \<lparr>environ = [''FACTCHAT_API_KEY'' \<mapsto> ''sk-env''],
           server = (\<lambda>request. Inl RequestException), posts = []\<rparr>"
  define w2 :: world where
    "w2 = \<lparr>environ = [''FACTCHAT_API_KEY'' \<mapsto> []],
           server = (\<lambda>request. Inl RequestException), posts = []\<rparr>"
  have n: "\<exists>self. init w1 None None 60 = (Inr self, w1) \<and> api_key' self = ''sk-env''"
    using init_ok [of None w1 "''sk-env''" None 60] by (simp add: opt_or_def w1_def)
  have e1: "init w1 (Some []) None 60 = init w1 None None 60"
    using init_empty_key [of w1 None 60 None] by blast
  have "environ w2 ''FACTCHAT_API_KEY'' = Some []"
    by (simp add: w2_def)
  then have e2: "init w2 (Some []) None 60 = (Inl (RuntimeError ''FACTCHAT_API_KEY missing''), w2)"
    using init_empty_key [of w2 None 60 None] by blast
  have g: "\<exists>self. init w1 (Some []) None 60 = (Inr self, w1) \<and> api_key' self = ''sk-env''"
    unfolding e1 by (rule n)
  show ?thesis
    using g e2 unfolding w1_def w2_def by blast
qed

text \<open>
  C7. Let \<open>base\<close> be the base address a client was made with: the argument, else the
  variable \<open>FACTCHAT_BASE_URL\<close>, else the default. Then \<open>base\<close> is \<open>b0\<close> followed by
  slashes only, where \<open>b0\<close> does not end with a slash, and: a call for a model the router
  knows posts one request, to \<open>b0\<close>, one slash, and the router's path; and for every path
  \<open>p\<close>, which is slashes followed by a \<open>p0\<close> that does not begin with a slash, the
  address the call builds is \<open>b0\<close>, one slash, and \<open>p0\<close>.
\<close>

theorem call_target_url:
  assumes "init w api_key base_url timeout = (Inr self, w1)"
    and "opt_or (opt_or base_url (environ w ''FACTCHAT_BASE_URL'')) (Some DEFAULT_BASE) = Some base"
    and "router model = Inr (path, provider)"
    and "kwargs_ok kwargs"
  shows "\<exists>b0 i. base = b0 @ replicate i CHR ''/'' \<and> (b0 = [] \<or> last b0 \<noteq> CHR ''/'')
     \<and> (\<exists>request. posts (snd (call self w1 model user_text kwargs)) = posts w1 @ [request]
           \<and> post_url request = b0 @ ''/'' @ path)
     \<and> (\<forall>p. \<exists>p0 j. p = replicate j CHR ''/'' @ p0 \<and> (p0 = [] \<or> hd p0 \<noteq> CHR ''/'')
           \<and> target_url self p = b0 @ ''/'' @ p0)"
proof -
  have b: "base_url' self = rstrip ''/'' base"
    using assms(1,2) by (rule init_base_url)
  obtain i where i: "base = rstrip ''/'' base @ replicate i CHR ''/''"
    and l: "rstrip ''/'' base = [] \<or> last (rstrip ''/'' base) \<noteq> CHR ''/''"
    using rstrip_slash [of base] by blast
  obtain payload where p: "build_payload model user_text kwargs = Inr payload"
    using routed_payload [OF assms(3,4)] by blast
  have "posts (snd (call self w1 model user_text kwargs)) =
      posts w1 @ [\<lparr>post_url = target_url self path, post_headers = headers self,
                   post_json = payload, post_timeout = timeout' self\<rparr>]"
    using assms(3) p by (rule call_posts)
  moreover have "target_url self path = rstrip ''/'' base @ ''/'' @ path"
    using routed_path [OF assms(3)] by (simp add: target_url_def b)
  ultimately have post: "\<exists>request. posts (snd (call self w1 model user_text kwargs)) = posts w1 @ [request]
      \<and> post_url request = rstrip ''/'' base @ ''/'' @ path"
    by simp
  have "\<exists>p0 j. p = replicate j CHR ''/'' @ p0 \<and> (p0 = [] \<or> hd p0 \<noteq> CHR ''/'')
      \<and> target_url self p = rstrip ''/'' base @ ''/'' @ p0" for p
    using lstrip_slash [of p] unfolding target_url_def b by blast
  with i l post show ?thesis
    by blast
qed

text \<open>
  A client made with the base address \<open>https://host/v1/api//\<close> and called for
  \<open>gpt-5-mini\<close>: the one request goes to \<open>https://host/v1/api/openai/chat/completions\<close>.
\<close>

theorem call_target_url_witness:
  "\<exists>self. init \<lparr>environ = Map.empty, server = (\<lambda>request. Inl RequestException), posts = []\<rparr>
            (Some ''sk-test'') (Some ''https://host/v1/api//'') 60
        = (Inr self, \<lparr>environ = Map.empty, server = (\<lambda>request. Inl RequestException), posts = []\<rparr>)
     \<and> router ''gpt-5-mini'' = Inr (''openai/chat/completions'', ''openai'')
     \<and> kwargs_ok []
     \<and> (\<exists>request.
           posts (snd (call self \<lparr>environ = Map.empty, server = (\<lambda>request. Inl RequestException), posts = []\<rparr>
                         ''gpt-5-mini'' ''ping'' []))
             = [request]
           \<and> post_url request = ''https://host/v1/api/openai/chat/completions'')"
proof -
  define w :: world where
    "w = \<lparr>environ = Map.empty, server = (\<lambda>request. Inl RequestException), posts = []\<rparr>"
  obtain self where s: "init w (Some ''sk-test'') (Some ''https://host/v1/api//'') 60 = (Inr self, w)"
    using init_ok [of "Some ''sk-test''" w "''sk-test''" "Some ''https://host/v1/api//''" 60]
    by (simp add: opt_or_def)
  have o: "opt_or (opt_or (Some ''https://host/v1/api//'') (environ w ''FACTCHAT_BASE_URL''))
      (Some DEFAULT_BASE) = Some ''https://host/v1/api//''"
    by (simp add: opt_or_def)
  have r: "router ''gpt-5-mini'' = Inr (''openai/chat/completions'', ''openai'')"
    by (rule router_gpt) simp
  have k: "kwargs_ok []"
    by (simp add: kwargs_ok_def)
  from call_target_url [OF s o r k, of "''ping''"]
  obtain b0 i request where b: "''https://host/v1/api//'' = b0 @ replicate i CHR ''/''"
    and l: "b0 = [] \<or> last b0 \<noteq> CHR ''/''"
    and q: "posts (snd (call self w ''gpt-5-mini'' ''ping'' [])) = posts w @ [request]"
    and u: "post_url request = b0 @ ''/'' @ ''openai/chat/completions''"
    by blast
  have "rstrip ''/'' (b0 @ replicate i CHR ''/'') = b0"
    using l by (rule rstrip_unique)
  then have "b0 = ''https://host/v1/api''"
    unfolding b [symmetric] by (simp add: rstrip_def)
  with s r k q u show ?thesis
    unfolding w_def by auto
qed

end
